theory Spec2Isabelle
  imports Complex_Main "HOL-Library.AList"
begin

section \<open>Data model\<close>

text \<open>
  The interfaces of \<^verbatim>\<open>src/src/App.tsx\<close>. A calendar date is the string
  \<^verbatim>\<open>YYYY-MM-DD\<close> in the source; it is represented by its day number (days since
  1970-01-01), so that string equality of well-formed dates is equality of day numbers and
  lexicographic order is chronological order. A field of an object may be missing
  (\<^verbatim>\<open>undefined\<close>), \<^verbatim>\<open>null\<close> or hold a value; \<^verbatim>\<open>Partial<DailyLog>\<close>
  payloads and stored documents use all three. The field \<^verbatim>\<open>id\<close> of a log is
  \<open>log_id\<close> here; the document id of a log is its date. Numbers that the code keeps
  whole are integers, and \<open>jsnum\<close> adds \<^verbatim>\<open>NaN\<close> where the code can produce it.
\<close>

datatype Flow = Light | Medium | Heavy | Spotting

datatype 'a jsval = Undefined | Null | Val 'a

type_synonym dateStr = int

record UserSettings =
  cycleLength :: int
  periodLength :: int

record LogFields =
  date :: dateStr
  flow :: "Flow jsval"
  mood :: "string jsval"
  symptoms :: "string list option"

record DailyLog = LogFields +
  log_id :: dateStr
  createdAt :: "int option"

datatype View = ViewDashboard | ViewCalendar | ViewLog | ViewSettings

datatype jsnum = NaN | Num int

text \<open>
  The state of the component \<^verbatim>\<open>Gyneo\<close> (its \<^verbatim>\<open>useState\<close> cells) together with
  the signed-in user's two remote collections: the log documents, keyed by date, and the
  singleton settings document (\<open>None\<close> while it does not exist).
\<close>

record AppState =
  user :: "string option"
  view :: View
  logs :: "DailyLog list"
  settings :: UserSettings
  loading :: bool
  sidebarOpen :: bool
  currentDay :: int
  daysUntilNext :: int
  isPeriodToday :: bool
  remoteLogs :: "(dateStr \<times> LogFields) list"
  remoteSettings :: "(string \<rightharpoonup> jsnum) option"

text \<open>
  The clock read by \<^verbatim>\<open>new Date()\<close>: the instant in milliseconds since the epoch, and
  the local calendar date \<^verbatim>\<open>formatDate(new Date())\<close> of that instant.
\<close>

record Clock =
  nowMs :: int
  todayStr :: dateStr

section \<open>Date helpers and JavaScript arithmetic\<close>

text \<open>JavaScript truthiness of a flow (a non-empty string literal) and of a mood string.\<close>

fun truthyFlow :: "Flow jsval \<Rightarrow> bool" where
  "truthyFlow (Val f) = True"
| "truthyFlow Null = False"
| "truthyFlow Undefined = False"

fun truthyStr :: "string jsval \<Rightarrow> bool" where
  "truthyStr (Val m) = (m \<noteq> [])"
| "truthyStr Null = False"
| "truthyStr Undefined = False"

definition msPerDay :: int where
  "msPerDay = 1000 * 60 * 60 * 24"

text \<open>\<^verbatim>\<open>new Date(dateStr).getTime()\<close>: a date-only string is midnight UTC of that day.\<close>

definition getTime :: "dateStr \<Rightarrow> int" where
  "getTime d = d * msPerDay"

text \<open>
  Quotients of millisecond counts are taken in the rationals; \<^verbatim>\<open>Math.ceil\<close> and
  \<^verbatim>\<open>Math.round\<close> (half rounds up) bring them back to integers.
\<close>

definition Math_ceil :: "rat \<Rightarrow> int" where
  "Math_ceil x = \<lceil>x\<rceil>"

definition Math_round :: "rat \<Rightarrow> int" where
  "Math_round x = \<lfloor>x + 1 / 2\<rfloor>"


section \<open>Cycle statistics\<close>

text \<open>
  \<^verbatim>\<open>currentLogs.filter(l => l.flow !== null).sort((a, b) => new Date(b.date).getTime() -
  new Date(a.date).getTime())\<close>: a stable sort, newest first.
\<close>

definition flowLogsOf :: "DailyLog list \<Rightarrow> DailyLog list" where
  "flowLogsOf currentLogs =
     sort_key (\<lambda>l. - getTime (date l)) (filter (\<lambda>l. flow l \<noteq> Null) currentLogs)"

text \<open>
  The first loop of the prediction, over the times of \<^verbatim>\<open>flowLogs[i - 1]\<close> and
  \<^verbatim>\<open>flowLogs[i]\<close> for \<open>i = 1, 2, ...\<close>: the dates pushed after the first one.
\<close>

fun periodStartsLoop :: "int list \<Rightarrow> int list" where
  "periodStartsLoop (prevDate # currDate # rest) =
     (if \<bar>of_int (prevDate - currDate) / of_int msPerDay\<bar> > (7::rat)
      then currDate # periodStartsLoop (currDate # rest)
      else periodStartsLoop (currDate # rest))"
| "periodStartsLoop [prevDate] = []"
| "periodStartsLoop [] = []"

text \<open>
  The second loop, over \<^verbatim>\<open>periodStarts[i]\<close> and \<^verbatim>\<open>periodStarts[i + 1]\<close>,
  carrying \<^verbatim>\<open>totalDays\<close> and \<^verbatim>\<open>count\<close>.
\<close>

fun gapLoop :: "int list \<Rightarrow> rat \<times> nat \<Rightarrow> rat \<times> nat" where
  "gapLoop (a # b # rest) (totalDays, count) =
     (let gap = \<bar>of_int (a - b) / of_int msPerDay\<bar>
      in gapLoop (b # rest)
           (if gap > 20 \<and> gap < 45 then (totalDays + gap, count + 1) else (totalDays, count)))"
| "gapLoop [a] acc = acc"
| "gapLoop [] acc = acc"

definition predictedCycleLength :: "UserSettings \<Rightarrow> DailyLog list \<Rightarrow> int" where
  "predictedCycleLength st flowLogs =
     (if length flowLogs \<ge> 2 then
        (let periodStarts = getTime (date (hd flowLogs))
                # periodStartsLoop (map (\<lambda>l. getTime (date l)) flowLogs)
         in if length periodStarts \<ge> 2 then
              (case gapLoop periodStarts (0, 0) of
                 (totalDays, count) \<Rightarrow>
                   if count > 0 then Math_round (totalDays / of_nat count)
                   else cycleLength st)
            else cycleLength st)
      else cycleLength st)"

text \<open>
  \<^verbatim>\<open>calculateCycleStats\<close>. The settings are the value of \<^verbatim>\<open>settings\<close> captured by
  the closure that runs, so they are an argument. With well-formed dates nothing in the
  body throws, so the \<^verbatim>\<open>catch\<close> branch is never entered.
\<close>

definition calculateCycleStats ::
  "UserSettings \<Rightarrow> Clock \<Rightarrow> DailyLog list \<Rightarrow> AppState \<Rightarrow> AppState" where
  "calculateCycleStats st clk currentLogs s =
     (let flowLogs = flowLogsOf currentLogs
      in case flowLogs of
           [] \<Rightarrow> s\<lparr>currentDay := 1, daysUntilNext := 28, isPeriodToday := False\<rparr>
         | l0 # older \<Rightarrow>
             (let startDate = getTime (date l0);
                  diffTime = \<bar>nowMs clk - startDate\<bar>;
                  diffDays = Math_ceil (of_int diffTime / of_int msPerDay)
              in s\<lparr>currentDay := diffDays,
                   daysUntilNext := max 0 (predictedCycleLength st flowLogs - diffDays),
                   isPeriodToday :=
                     (find (\<lambda>l. date l = todayStr clk \<and> truthyFlow (flow l)) currentLogs
                        \<noteq> None)\<rparr>))"

section \<open>Calendar prediction overlay\<close>









section \<open>Saving logs\<close>

text \<open>
  Object spread \<^verbatim>\<open>{ ...l, ...data }\<close>: the fields present in \<open>data\<close> replace those of
  \<open>l\<close>. The remote store's \<^verbatim>\<open>setDoc(ref, data, { merge: true })\<close> combines the
  stored document with \<open>data\<close> in the same way.
\<close>

definition spread :: "'a LogFields_scheme \<Rightarrow> LogFields \<Rightarrow> 'a LogFields_scheme" where
  "spread l data =
     l\<lparr>date := date data,
       flow := (case flow data of Undefined \<Rightarrow> flow l | Null \<Rightarrow> Null | Val f \<Rightarrow> Val f),
       mood := (case mood data of Undefined \<Rightarrow> mood l | Null \<Rightarrow> Null | Val m \<Rightarrow> Val m),
       symptoms := (case symptoms data of None \<Rightarrow> symptoms l | Some xs \<Rightarrow> Some xs)\<rparr>"

text \<open>\<^verbatim>\<open>{ id: dateStr, createdAt: Timestamp.now(), ...data } as DailyLog\<close>.\<close>

definition newLog :: "Clock \<Rightarrow> LogFields \<Rightarrow> DailyLog" where
  "newLog clk data =
     \<lparr>date = date data, flow = flow data, mood = mood data, symptoms = symptoms data,
      log_id = date data, createdAt = Some (nowMs clk)\<rparr>"

text \<open>The optimistic update passed to \<^verbatim>\<open>setLogs\<close>.\<close>

definition optimisticUpdate :: "Clock \<Rightarrow> LogFields \<Rightarrow> DailyLog list \<Rightarrow> DailyLog list" where
  "optimisticUpdate clk data prev =
     (let dateStr = date data
      in case find (\<lambda>l. date l = dateStr) prev of
           Some exists \<Rightarrow> map (\<lambda>l. if date l = dateStr then spread l data else l) prev
         | None \<Rightarrow> newLog clk data # prev)"

text \<open>The two remote operations on the log collection, whose document id is the date.\<close>

definition deleteDoc :: "dateStr \<Rightarrow> (dateStr \<times> LogFields) list \<Rightarrow> (dateStr \<times> LogFields) list" where
  "deleteDoc k coll = AList.delete k coll"

definition setDocMerge ::
  "dateStr \<Rightarrow> LogFields \<Rightarrow> (dateStr \<times> LogFields) list \<Rightarrow> (dateStr \<times> LogFields) list" where
  "setDocMerge k data coll =
     (case map_of coll k of
        None \<Rightarrow> AList.update k data coll
      | Some old \<Rightarrow> AList.update k (spread old data) coll)"

text \<open>
  \<^verbatim>\<open>!data.flow && !data.mood && (!data.symptoms || data.symptoms.length === 0)\<close>.
\<close>

definition clearsAll :: "LogFields \<Rightarrow> bool" where
  "clearsAll data =
     (\<not> truthyFlow (flow data) \<and> \<not> truthyStr (mood data)
      \<and> (case symptoms data of None \<Rightarrow> True | Some xs \<Rightarrow> length xs = 0))"

text \<open>
  \<^verbatim>\<open>handleLogSave\<close>. The flag \<open>ok\<close> tells whether the remote call resolves; when it
  rejects, the \<^verbatim>\<open>catch\<close> block logs and alerts, and the remote collection is as
  before.
\<close>

definition handleLogSave :: "Clock \<Rightarrow> bool \<Rightarrow> LogFields \<Rightarrow> AppState \<Rightarrow> AppState" where
  "handleLogSave clk ok data s =
     (let dateStr = date data;
          s1 = s\<lparr>logs := optimisticUpdate clk data (logs s)\<rparr>
      in case user s1 of
           None \<Rightarrow> s1
         | Some u \<Rightarrow>
             if \<not> ok then s1
             else if clearsAll data
               then s1\<lparr>remoteLogs := deleteDoc dateStr (remoteLogs s1)\<rparr>
               else s1\<lparr>remoteLogs := setDocMerge dateStr data (remoteLogs s1)\<rparr>)"

definition handleTogglePeriod :: "Clock \<Rightarrow> bool \<Rightarrow> dateStr \<Rightarrow> AppState \<Rightarrow> AppState" where
  "handleTogglePeriod clk ok d s =
     (case find (\<lambda>l. date l = d) (logs s) of
        Some existing \<Rightarrow>
          if truthyFlow (flow existing)
          then handleLogSave clk ok
                 \<lparr>date = d, flow = Null, mood = Undefined, symptoms = None\<rparr> s
          else handleLogSave clk ok
                 \<lparr>date = d, flow = Val Medium, mood = Undefined, symptoms = None\<rparr> s
      | None \<Rightarrow>
          handleLogSave clk ok
            \<lparr>date = d, flow = Val Medium, mood = Undefined, symptoms = None\<rparr> s)"

text \<open>A run of saves and toggles, each with its clock reading and remote outcome.\<close>

datatype LogOp = SaveOp Clock bool LogFields | ToggleOp Clock bool dateStr

fun applyOp :: "LogOp \<Rightarrow> AppState \<Rightarrow> AppState" where
  "applyOp (SaveOp clk ok data) s = handleLogSave clk ok data s"
| "applyOp (ToggleOp clk ok d) s = handleTogglePeriod clk ok d s"

definition runOps :: "LogOp list \<Rightarrow> AppState \<Rightarrow> AppState" where
  "runOps ops s = fold applyOp ops s"

text \<open>The error callback of the log subscription: \<^verbatim>\<open>setLoading(false)\<close>.\<close>

definition onLogsError :: "AppState \<Rightarrow> AppState" where
  "onLogsError s = s\<lparr>loading := False\<rparr>"

section \<open>Saving settings\<close>

text \<open>
  \<^verbatim>\<open>String(n)\<close> prints the shortest run of decimal digits that reads back as the same
  number: followed by the remaining zeros when the number is below \<open>10^21\<close> in magnitude,
  and as a mantissa with an exponent (\<^verbatim>\<open>1e+21\<close>, \<^verbatim>\<open>1.5e+21\<close>) from \<open>10^21\<close> on. For
  an integer below \<open>2^53\<close> in magnitude, and for a larger one that a number holds
  exactly (an odd part below \<open>2^53\<close>, a magnitude below \<open>2^1024\<close>) and that has at most
  15 significant digits, these digits are the integer's own digits without its trailing
  zeros. For the other integers the digits depend on the binary rounding of the number,
  which integers do not carry: there \<open>String_num\<close> is \<open>None\<close>, and no statement is made. \<^verbatim>\<open>parseInt\<close>
  skips leading white space, reads an optional sign and the longest run of decimal
  digits, and is \<^verbatim>\<open>NaN\<close> when there is no digit; it stops at the point or the exponent
  letter. The hexadecimal prefix is not part of the model.
\<close>

definition digitChar :: "nat \<Rightarrow> char" where
  "digitChar d = char_of (48 + d)"




fun natToDigits :: "nat \<Rightarrow> string" where
  "natToDigits n =
     (if n < 10 then [digitChar n] else natToDigits (n div 10) @ [digitChar (n mod 10)])"

declare natToDigits.simps [simp del]

definition significantDigits :: "string \<Rightarrow> string" where
  "significantDigits ds = rev (dropWhile (\<lambda>c. c = CHR ''0'') (rev ds))"

fun oddPart :: "nat \<Rightarrow> nat" where
  "oddPart n = (if n = 0 \<or> odd n then n else oddPart (n div 2))"

declare oddPart.simps [simp del]

definition heldExactly :: "int \<Rightarrow> bool" where
  "heldExactly n = (oddPart (nat \<bar>n\<bar>) < 2 ^ 53 \<and> \<bar>n\<bar> < 2 ^ 1024)"

definition printsOwnDigits :: "int \<Rightarrow> bool" where
  "printsOwnDigits n =
     (\<bar>n\<bar> < 2 ^ 53
      \<or> (heldExactly n \<and> length (significantDigits (natToDigits (nat \<bar>n\<bar>))) \<le> 15))"









section \<open>Subscription and initial state\<close>

text \<open>
  The callback of \<^verbatim>\<open>onAuthStateChanged\<close>, and the callback of the settings
  subscription on the content of the settings document (\<open>None\<close> when it does not exist,
  and then the defaults are written, if the write goes through).
\<close>

definition onAuthStateChanged :: "string option \<Rightarrow> AppState \<Rightarrow> AppState" where
  "onAuthStateChanged u s = s\<lparr>user := u, loading := False\<rparr>"

definition onSettingsSnapshot :: "bool \<Rightarrow> UserSettings option \<Rightarrow> AppState \<Rightarrow> AppState" where
  "onSettingsSnapshot ok snap s =
     (case snap of
        Some st \<Rightarrow> s\<lparr>settings := st\<rparr>
      | None \<Rightarrow>
          if ok
          then s\<lparr>remoteSettings :=
                   Some [''cycleLength'' \<mapsto> Num 28, ''periodLength'' \<mapsto> Num 5]\<rparr>
          else s)"

text \<open>
  The data-fetching effect has the dependency list \<^verbatim>\<open>[user]\<close>: it runs in the render
  after the user changed and, for a signed-in user, registers the callbacks of the two
  subscriptions. The callback of the log subscription is a closure of that render; the
  \<^verbatim>\<open>calculateCycleStats\<close> it calls reads the \<^verbatim>\<open>settings\<close> of that render, also when
  the snapshot arrives after the settings have changed. The subscription is represented
  by what its callback captured.
\<close>

record LogsSubscription =
  capturedSettings :: UserSettings

definition dataFetchingEffect :: "AppState \<Rightarrow> LogsSubscription option" where
  "dataFetchingEffect s =
     (case user s of
        None \<Rightarrow> None
      | Some u \<Rightarrow> Some \<lparr>capturedSettings = settings s\<rparr>)"

text \<open>
  The success callback of the log subscription, the only caller of
  \<^verbatim>\<open>calculateCycleStats\<close>: the documents arrive ordered by date, newest first, each
  mapped by \<^verbatim>\<open>{ id: d.id, ...d.data() }\<close>; then \<^verbatim>\<open>setLogs\<close>,
  \<^verbatim>\<open>calculateCycleStats\<close> and \<^verbatim>\<open>setLoading(false)\<close>.
\<close>

definition fetchedLog :: "dateStr \<times> LogFields \<Rightarrow> DailyLog" where
  "fetchedLog kd =
     \<lparr>date = date (snd kd), flow = flow (snd kd), mood = mood (snd kd),
      symptoms = symptoms (snd kd), log_id = fst kd, createdAt = None\<rparr>"

definition fetchedLogsOf :: "(dateStr \<times> LogFields) list \<Rightarrow> DailyLog list" where
  "fetchedLogsOf docs = map fetchedLog (sort_key (\<lambda>kd. - date (snd kd)) docs)"

definition onLogsSnapshot ::
  "LogsSubscription \<Rightarrow> Clock \<Rightarrow> DailyLog list \<Rightarrow> AppState \<Rightarrow> AppState" where
  "onLogsSnapshot sub clk fetchedLogs s =
     (calculateCycleStats (capturedSettings sub) clk fetchedLogs
        (s\<lparr>logs := fetchedLogs\<rparr>))\<lparr>loading := False\<rparr>"

text \<open>The initial values of the state cells, with nothing stored remotely yet.\<close>

definition initialState :: AppState where
  "initialState =
     \<lparr>user = None, view = ViewDashboard, logs = [],
      settings = \<lparr>cycleLength = 28, periodLength = 5\<rparr>,
      loading = True, sidebarOpen = False,
      currentDay = 1, daysUntilNext = 28, isPeriodToday = False,
      remoteLogs = [], remoteSettings = None\<rparr>"

section \<open>Notions of the specification\<close>

text \<open>
  The specification's "number of days since that entry's date": the calendar days from
  the entry's date to today's date.
\<close>

definition daysSinceDate :: "Clock \<Rightarrow> dateStr \<Rightarrow> int" where
  "daysSinceDate clk d = todayStr clk - d"



text \<open>
  A flow is recorded for a date when the entry that \<^verbatim>\<open>logs.find\<close> returns for the date
  has one.
\<close>

definition flowRecorded :: "DailyLog list \<Rightarrow> dateStr \<Rightarrow> bool" where
  "flowRecorded ls d =
     (case find (\<lambda>l. date l = d) ls of None \<Rightarrow> False | Some e \<Rightarrow> truthyFlow (flow e))"

text \<open>
  The invariant "at most one log per calendar date", on the local list and on the remote
  collection.
\<close>

definition oneLogPerDate :: "AppState \<Rightarrow> bool" where
  "oneLogPerDate s = (distinct (map date (logs s)) \<and> distinct (map fst (remoteLogs s)))"

section \<open>Arithmetic of days\<close>

lemma msPerDay_pos: "0 < msPerDay"
  by (simp add: msPerDay_def)

lemma ceil_quotient_bounds:
  fixes a D :: int
  assumes "0 < D"
  shows "(\<lceil>(of_int a / of_int D :: rat)\<rceil> - 1) * D < a" and "a \<le> \<lceil>(of_int a / of_int D :: rat)\<rceil> * D"
proof -
  define x :: rat where "x = of_int a / of_int D"
  have D: "(0::rat) < of_int D" using assms by simp
  have xa: "x * of_int D = of_int a" using D by (simp add: x_def)
  have "of_int \<lceil>x\<rceil> - 1 < x" by linarith
  then have "(of_int \<lceil>x\<rceil> - 1) * of_int D < x * of_int D"
    using D by (rule mult_strict_right_mono)
  then have "(of_int ((\<lceil>x\<rceil> - 1) * D) :: rat) < of_int a"
    by (simp only: xa of_int_mult of_int_diff of_int_1)
  then show "(\<lceil>(of_int a / of_int D :: rat)\<rceil> - 1) * D < a"
    by (simp only: of_int_less_iff x_def)
  have "x \<le> of_int \<lceil>x\<rceil>" by linarith
  then have "x * of_int D \<le> of_int \<lceil>x\<rceil> * of_int D"
    using D by (intro mult_right_mono) simp_all
  then have "(of_int a :: rat) \<le> of_int (\<lceil>x\<rceil> * D)"
    by (simp only: xa of_int_mult)
  then show "a \<le> \<lceil>(of_int a / of_int D :: rat)\<rceil> * D"
    by (simp only: of_int_le_iff x_def)
qed

lemma quotient_of_days:
  "(of_int \<bar>getTime a - getTime b\<bar> / of_int msPerDay :: rat) = of_int \<bar>a - b\<bar>"
proof -
  have "\<bar>getTime a - getTime b\<bar> = \<bar>a - b\<bar> * msPerDay"
    using msPerDay_pos by (simp add: getTime_def left_diff_distrib[symmetric] abs_mult)
  then show ?thesis using msPerDay_pos by simp
qed


lemma flowLogsOf_single:
  "filter (\<lambda>l. flow l \<noteq> Null) currentLogs = [e] \<Longrightarrow> flowLogsOf currentLogs = [e]"
  by (simp add: flowLogsOf_def)

lemma flowLogsOf_none:
  "\<forall>l\<in>set currentLogs. flow l = Null \<Longrightarrow> flowLogsOf currentLogs = []"
  by (simp add: flowLogsOf_def)

subsection \<open>Log lists without flow entries\<close>

text \<open>
  Claim C9. When no entry of the log list has a flow (every \<open>flow\<close> is \<open>null\<close>), the
  statistics are reset to fixed values whatever the settings are: current day 1,
  days-until-next the constant 28, period-today false.
\<close>

theorem no_flow_entries_reset_defaults:
  assumes "\<forall>l\<in>set currentLogs. flow l = Null"
  shows "currentDay (calculateCycleStats st clk currentLogs s) = 1
       \<and> daysUntilNext (calculateCycleStats st clk currentLogs s) = 28
       \<and> isPeriodToday (calculateCycleStats st clk currentLogs s) = False"
  using assms by (simp add: calculateCycleStats_def flowLogsOf_none)

text \<open>
  The theorem at a list of one mood-only entry, with cycle length 31 configured and
  other statistics in place before.
\<close>

theorem no_flow_entries_reset_defaults_witness:
  "flow (fetchedLog (19990, \<lparr>date = 19990, flow = Null, mood = Val ''Happy'', symptoms = Some []\<rparr>)) = Null
   \<and> currentDay (calculateCycleStats \<lparr>cycleLength = 31, periodLength = 4\<rparr>
         \<lparr>nowMs = getTime 20000, todayStr = 20000\<rparr>
         [fetchedLog (19990, \<lparr>date = 19990, flow = Null, mood = Val ''Happy'', symptoms = Some []\<rparr>)]
         (initialState\<lparr>currentDay := 9, daysUntilNext := 3, isPeriodToday := True\<rparr>)) = 1
   \<and> daysUntilNext (calculateCycleStats \<lparr>cycleLength = 31, periodLength = 4\<rparr>
         \<lparr>nowMs = getTime 20000, todayStr = 20000\<rparr>
         [fetchedLog (19990, \<lparr>date = 19990, flow = Null, mood = Val ''Happy'', symptoms = Some []\<rparr>)]
         (initialState\<lparr>currentDay := 9, daysUntilNext := 3, isPeriodToday := True\<rparr>)) = 28
   \<and> \<not> isPeriodToday (calculateCycleStats \<lparr>cycleLength = 31, periodLength = 4\<rparr>
         \<lparr>nowMs = getTime 20000, todayStr = 20000\<rparr>
         [fetchedLog (19990, \<lparr>date = 19990, flow = Null, mood = Val ''Happy'', symptoms = Some []\<rparr>)]
         (initialState\<lparr>currentDay := 9, daysUntilNext := 3, isPeriodToday := True\<rparr>))"
proof -
  have h: "\<forall>l\<in>set [fetchedLog (19990, \<lparr>date = 19990, flow = Null, mood = Val ''Happy'', symptoms = Some []\<rparr>)].
       flow l = Null"
    by (simp add: fetchedLog_def)
  show ?thesis
    using no_flow_entries_reset_defaults [OF h] by (simp add: fetchedLog_def)
qed

subsection \<open>Log lists with a single flow entry\<close>

lemma single_flow_entry_calc:
  assumes "filter (\<lambda>l. flow l \<noteq> Null) currentLogs = [e]"
  shows "(currentDay (calculateCycleStats st clk currentLogs s) - 1) * msPerDay
           < \<bar>nowMs clk - getTime (date e)\<bar>
       \<and> \<bar>nowMs clk - getTime (date e)\<bar>
           \<le> currentDay (calculateCycleStats st clk currentLogs s) * msPerDay
       \<and> (\<forall>t. nowMs clk = getTime t \<longrightarrow>
             currentDay (calculateCycleStats st clk currentLogs s) = \<bar>t - date e\<bar>)
       \<and> daysUntilNext (calculateCycleStats st clk currentLogs s)
           = max 0 (cycleLength st - currentDay (calculateCycleStats st clk currentLogs s))"
proof -
  let ?el = "\<bar>nowMs clk - getTime (date e)\<bar>"
  have cd: "currentDay (calculateCycleStats st clk currentLogs s)
              = \<lceil>(of_int ?el / of_int msPerDay :: rat)\<rceil>"
    using assms by (simp add: calculateCycleStats_def flowLogsOf_single Math_ceil_def Let_def)
  have du: "daysUntilNext (calculateCycleStats st clk currentLogs s)
              = max 0 (cycleLength st - \<lceil>(of_int ?el / of_int msPerDay :: rat)\<rceil>)"
    using assms
    by (simp add: calculateCycleStats_def flowLogsOf_single Math_ceil_def Let_def
        predictedCycleLength_def)
  have ex: "\<forall>t. nowMs clk = getTime t \<longrightarrow> \<lceil>(of_int ?el / of_int msPerDay :: rat)\<rceil> = \<bar>t - date e\<bar>"
    by (intro allI impI) (simp only: quotient_of_days ceiling_of_int)
  show ?thesis
    using ceil_quotient_bounds[OF msPerDay_pos, of ?el] ex
    unfolding cd du by simp
qed

text \<open>
  The statistics that the snapshot callback leaves are those that
  \<^verbatim>\<open>calculateCycleStats\<close> computes with the settings its closure captured.
\<close>

lemma stats_onLogsSnapshot:
  "currentDay (onLogsSnapshot sub clk fetchedLogs s)
     = currentDay (calculateCycleStats (capturedSettings sub) clk fetchedLogs s)"
  "daysUntilNext (onLogsSnapshot sub clk fetchedLogs s)
     = daysUntilNext (calculateCycleStats (capturedSettings sub) clk fetchedLogs s)"
  "isPeriodToday (onLogsSnapshot sub clk fetchedLogs s)
     = isPeriodToday (calculateCycleStats (capturedSettings sub) clk fetchedLogs s)"
  "settings (onLogsSnapshot sub clk fetchedLogs s) = settings s"
  by (simp_all add: onLogsSnapshot_def calculateCycleStats_def Let_def split: list.splits)

text \<open>
  Claim C1, as amended. When a snapshot of the log collection holds exactly one flow
  entry \<open>e\<close>, the current day is the time between midnight UTC of \<open>e\<close>'s date and now,
  in days, rounded up to a whole number: it is the whole number \<open>n\<close> with \<open>n - 1\<close> days
  \<open><\<close> elapsed time \<open>\<le> n\<close> days, and it is the exact distance in days when now is midnight
  UTC of some day \<open>t\<close>. When the cycle length that the subscription's callback captured
  is the configured one, days-until-next is the configured cycle length minus the
  current day, floored at 0.
\<close>

theorem single_flow_entry_stats:
  assumes "filter (\<lambda>l. flow l \<noteq> Null) fetchedLogs = [e]"
  shows "(currentDay (onLogsSnapshot sub clk fetchedLogs s) - 1) * msPerDay
           < \<bar>nowMs clk - getTime (date e)\<bar>
       \<and> \<bar>nowMs clk - getTime (date e)\<bar>
           \<le> currentDay (onLogsSnapshot sub clk fetchedLogs s) * msPerDay
       \<and> (\<forall>t. nowMs clk = getTime t \<longrightarrow>
             currentDay (onLogsSnapshot sub clk fetchedLogs s) = \<bar>t - date e\<bar>)
       \<and> (cycleLength (capturedSettings sub) = cycleLength (settings s) \<longrightarrow>
             daysUntilNext (onLogsSnapshot sub clk fetchedLogs s)
               = max 0 (cycleLength (settings s)
                        - currentDay (onLogsSnapshot sub clk fetchedLogs s)))"
  using single_flow_entry_calc [OF assms, of "capturedSettings sub" clk s]
  unfolding stats_onLogsSnapshot by simp

text \<open>
  The theorem for a user who signs in with the default settings in place, at an entry
  dated two days before a midnight-UTC clock reading.
\<close>

theorem single_flow_entry_stats_witness:
  "dataFetchingEffect (onAuthStateChanged (Some ''u1'') initialState) = Some \<lparr>capturedSettings = \<lparr>cycleLength = 28, periodLength = 5\<rparr>\<rparr>
   \<and> cycleLength (capturedSettings \<lparr>capturedSettings = \<lparr>cycleLength = 28, periodLength = 5\<rparr>\<rparr>) = cycleLength (settings (onAuthStateChanged (Some ''u1'') initialState))
   \<and> filter (\<lambda>l. flow l \<noteq> Null)
      [fetchedLog (19998, \<lparr>date = 19998, flow = Val Medium, mood = Null, symptoms = Some []\<rparr>),
       fetchedLog (19990, \<lparr>date = 19990, flow = Null, mood = Val ''Happy'', symptoms = Some []\<rparr>)]
     = [fetchedLog (19998, \<lparr>date = 19998, flow = Val Medium, mood = Null, symptoms = Some []\<rparr>)]
   \<and> nowMs \<lparr>nowMs = getTime 20000, todayStr = 20000\<rparr> = getTime 20000
   \<and> currentDay (onLogsSnapshot \<lparr>capturedSettings = \<lparr>cycleLength = 28, periodLength = 5\<rparr>\<rparr> \<lparr>nowMs = getTime 20000, todayStr = 20000\<rparr>
      [fetchedLog (19998, \<lparr>date = 19998, flow = Val Medium, mood = Null, symptoms = Some []\<rparr>),
       fetchedLog (19990, \<lparr>date = 19990, flow = Null, mood = Val ''Happy'', symptoms = Some []\<rparr>)]
      (onAuthStateChanged (Some ''u1'') initialState)) = 2
   \<and> daysUntilNext (onLogsSnapshot \<lparr>capturedSettings = \<lparr>cycleLength = 28, periodLength = 5\<rparr>\<rparr> \<lparr>nowMs = getTime 20000, todayStr = 20000\<rparr>
      [fetchedLog (19998, \<lparr>date = 19998, flow = Val Medium, mood = Null, symptoms = Some []\<rparr>),
       fetchedLog (19990, \<lparr>date = 19990, flow = Null, mood = Val ''Happy'', symptoms = Some []\<rparr>)]
      (onAuthStateChanged (Some ''u1'') initialState)) = 26"
proof -
  let ?e = "fetchedLog (19998, \<lparr>date = 19998, flow = Val Medium, mood = Null, symptoms = Some []\<rparr>)"
  let ?ls = "[fetchedLog (19998, \<lparr>date = 19998, flow = Val Medium, mood = Null, symptoms = Some []\<rparr>),
       fetchedLog (19990, \<lparr>date = 19990, flow = Null, mood = Val ''Happy'', symptoms = Some []\<rparr>)]"
  let ?clk = "\<lparr>nowMs = getTime 20000, todayStr = 20000\<rparr>"
  let ?sub = "\<lparr>capturedSettings = \<lparr>cycleLength = 28, periodLength = 5\<rparr>\<rparr>"
  let ?s = "(onAuthStateChanged (Some ''u1'') initialState)"
  have eff: "dataFetchingEffect ?s = Some ?sub"
    by (simp add: dataFetchingEffect_def onAuthStateChanged_def initialState_def)
  have cap: "cycleLength (capturedSettings ?sub) = cycleLength (settings ?s)"
    by (simp add: onAuthStateChanged_def initialState_def)
  have h: "filter (\<lambda>l. flow l \<noteq> Null) ?ls = [?e]"
    by (simp add: fetchedLog_def)
  have n: "nowMs ?clk = getTime 20000" by simp
  note t = single_flow_entry_stats [OF h, of ?sub ?clk ?s]
  from t have a: "\<forall>t. nowMs ?clk = getTime t \<longrightarrow>
      currentDay (onLogsSnapshot ?sub ?clk ?ls ?s) = \<bar>t - date ?e\<bar>"
    by blast
  from a n have c: "currentDay (onLogsSnapshot ?sub ?clk ?ls ?s) = \<bar>20000 - date ?e\<bar>"
    by blast
  have c2: "currentDay (onLogsSnapshot ?sub ?clk ?ls ?s) = 2"
    unfolding c by (simp add: fetchedLog_def)
  from t cap have d: "daysUntilNext (onLogsSnapshot ?sub ?clk ?ls ?s)
      = max 0 (cycleLength (settings ?s) - currentDay (onLogsSnapshot ?sub ?clk ?ls ?s))"
    by blast
  have d2: "daysUntilNext (onLogsSnapshot ?sub ?clk ?ls ?s) = 26"
    unfolding d c2 by (simp add: onAuthStateChanged_def initialState_def)
  show ?thesis using eff cap h n c2 d2 by blast
qed

text \<open>
  The callback keeps the settings of the render that subscribed. A user signs in with
  the defaults in place, the settings subscription then delivers a configured cycle of
  30 days, and a log snapshot with one flow entry two days old arrives: days-until-next
  is 26, from the captured 28, while 30 is configured.
\<close>

lemma log_callback_keeps_captured_settings:
  "dataFetchingEffect (onAuthStateChanged (Some ''u1'') initialState) = Some \<lparr>capturedSettings = \<lparr>cycleLength = 28, periodLength = 5\<rparr>\<rparr>
   \<and> cycleLength (settings (onSettingsSnapshot True (Some \<lparr>cycleLength = 30, periodLength = 5\<rparr>) (onAuthStateChanged (Some ''u1'') initialState))) = 30
   \<and> daysUntilNext (onLogsSnapshot \<lparr>capturedSettings = \<lparr>cycleLength = 28, periodLength = 5\<rparr>\<rparr> \<lparr>nowMs = getTime 20000, todayStr = 20000\<rparr>
      [fetchedLog (19998, \<lparr>date = 19998, flow = Val Medium, mood = Null, symptoms = Some []\<rparr>),
       fetchedLog (19990, \<lparr>date = 19990, flow = Null, mood = Val ''Happy'', symptoms = Some []\<rparr>)]
      (onSettingsSnapshot True (Some \<lparr>cycleLength = 30, periodLength = 5\<rparr>) (onAuthStateChanged (Some ''u1'') initialState))) = 26"
  by (simp add: dataFetchingEffect_def onAuthStateChanged_def onSettingsSnapshot_def
      initialState_def stats_onLogsSnapshot calculateCycleStats_def flowLogsOf_def
      predictedCycleLength_def fetchedLog_def Math_ceil_def getTime_def msPerDay_def Let_def)

text \<open>
  Claim C1 as stated fails: at 14:00 UTC, two calendar days after the entry's date, the
  current day is 3.
\<close>

theorem current_day_days_since_counterexample:
  "currentDay (calculateCycleStats \<lparr>cycleLength = 30, periodLength = 5\<rparr>
       \<lparr>nowMs = getTime 20000 + 14 * 60 * 60 * 1000, todayStr = 20000\<rparr>
       [fetchedLog (19998, \<lparr>date = 19998, flow = Val Medium, mood = Null, symptoms = Some []\<rparr>)]
       initialState) = 3
   \<and> daysSinceDate \<lparr>nowMs = getTime 20000 + 14 * 60 * 60 * 1000, todayStr = 20000\<rparr>
       (date (fetchedLog (19998, \<lparr>date = 19998, flow = Val Medium, mood = Null, symptoms = Some []\<rparr>))) = 2"
  by (simp add: calculateCycleStats_def flowLogsOf_def fetchedLog_def Math_ceil_def
      getTime_def msPerDay_def daysSinceDate_def Let_def ceiling_eq_iff)


section \<open>Facts about saving logs\<close>

lemma date_spread [simp]: "date (spread l data) = date data"
  by (simp add: spread_def)

lemma date_newLog [simp]: "date (newLog clk data) = date data"
  by (simp add: newLog_def)

lemma find_map_preserving:
  "(\<And>x. P (g x) = P x) \<Longrightarrow> find P (map g xs) = map_option g (find P xs)"
  by (induction xs) simp_all

lemma find_date_None: "find (\<lambda>l. date l = d) ls = None \<longleftrightarrow> d \<notin> date ` set ls"
  by (auto simp: find_None_iff)

lemma map_date_merge:
  "map date (map (\<lambda>l. if date l = date data then spread l data else l) ls) = map date ls"
  by (induction ls) simp_all

lemma optimisticUpdate_cases:
  "optimisticUpdate clk data prev =
     (if date data \<in> date ` set prev
      then map (\<lambda>l. if date l = date data then spread l data else l) prev
      else newLog clk data # prev)"
proof (cases "find (\<lambda>l. date l = date data) prev")
  case None
  then have "date data \<notin> date ` set prev"
    by (simp add: find_date_None)
  with None show ?thesis
    unfolding optimisticUpdate_def Let_def by simp
next
  case (Some e)
  have "date data \<in> date ` set prev"
  proof (rule ccontr)
    assume "date data \<notin> date ` set prev"
    then have "find (\<lambda>l. date l = date data) prev = None"
      by (simp add: find_date_None)
    with Some show False by simp
  qed
  with Some show ?thesis
    unfolding optimisticUpdate_def Let_def by simp
qed

lemma filter_eq_distinct_singleton:
  "distinct xs \<Longrightarrow> x \<in> set xs \<Longrightarrow> length (filter (\<lambda>y. y = x) xs) = 1"
proof (induction xs)
  case Nil
  then show ?case by simp
next
  case (Cons a xs)
  show ?case
  proof (cases "a = x")
    case True
    with Cons.prems have "x \<notin> set xs" by simp
    then have "filter (\<lambda>y. y = x) xs = []" by (auto simp: filter_empty_conv)
    with True show ?thesis by simp
  next
    case False
    with Cons show ?thesis by simp
  qed
qed

lemma map_date_optimisticUpdate:
  "map date (optimisticUpdate clk data prev) =
     (if date data \<in> date ` set prev then map date prev else date data # map date prev)"
  by (simp add: optimisticUpdate_cases map_date_merge del: map_map)

lemma logs_handleLogSave [simp]:
  "logs (handleLogSave clk ok data s) = optimisticUpdate clk data (logs s)"
  by (simp add: handleLogSave_def Let_def split: option.splits)

lemma user_handleLogSave [simp]: "user (handleLogSave clk ok data s) = user s"
  by (simp add: handleLogSave_def Let_def split: option.splits)

lemma remoteLogs_handleLogSave:
  "remoteLogs (handleLogSave clk ok data s) =
     (if user s = None \<or> \<not> ok then remoteLogs s
      else if clearsAll data then deleteDoc (date data) (remoteLogs s)
      else setDocMerge (date data) data (remoteLogs s))"
  by (simp add: handleLogSave_def Let_def split: option.splits)

lemma distinct_optimisticUpdate:
  "distinct (map date prev) \<Longrightarrow> distinct (map date (optimisticUpdate clk data prev))"
  by (simp add: map_date_optimisticUpdate)

lemma distinct_deleteDoc:
  "distinct (map fst coll) \<Longrightarrow> distinct (map fst (deleteDoc k coll))"
  by (simp add: deleteDoc_def distinct_delete)

lemma distinct_setDocMerge:
  "distinct (map fst coll) \<Longrightarrow> distinct (map fst (setDocMerge k data coll))"
  by (simp add: setDocMerge_def distinct_update split: option.splits)

lemma oneLogPerDate_handleLogSave:
  "oneLogPerDate s \<Longrightarrow> oneLogPerDate (handleLogSave clk ok data s)"
  by (simp add: oneLogPerDate_def remoteLogs_handleLogSave distinct_optimisticUpdate
      distinct_deleteDoc distinct_setDocMerge)

lemma oneLogPerDate_handleTogglePeriod:
  "oneLogPerDate s \<Longrightarrow> oneLogPerDate (handleTogglePeriod clk ok d s)"
  by (simp add: handleTogglePeriod_def oneLogPerDate_handleLogSave split: option.splits)

lemma oneLogPerDate_applyOp: "oneLogPerDate s \<Longrightarrow> oneLogPerDate (applyOp op s)"
  by (cases op) (simp_all add: oneLogPerDate_handleLogSave oneLogPerDate_handleTogglePeriod)

lemma oneLogPerDate_fold:
  "oneLogPerDate s \<Longrightarrow> oneLogPerDate (fold applyOp ops s)"
  by (induction ops arbitrary: s) (simp_all add: oneLogPerDate_applyOp)

text \<open>
  Claim C7. Along every sequence of log saves and period toggles the log collection keeps
  at most one log per date, locally and remotely. One save leaves exactly one local entry
  with the saved date, and the dates present are those present before together with the
  saved one: the entry was replaced in place or created.
\<close>

theorem one_log_per_date_invariant:
  assumes "oneLogPerDate s"
  shows "oneLogPerDate (runOps ops s)
       \<and> date ` set (logs (handleLogSave clk ok data s)) = insert (date data) (date ` set (logs s))
       \<and> length (filter (\<lambda>l. date l = date data) (logs (handleLogSave clk ok data s))) = 1"
proof -
  have inv: "oneLogPerDate (runOps ops s)"
    using assms by (simp add: runOps_def oneLogPerDate_fold)
  have "set (map date (logs (handleLogSave clk ok data s))) = insert (date data) (set (map date (logs s)))"
    unfolding logs_handleLogSave map_date_optimisticUpdate by auto
  then have dates: "date ` set (logs (handleLogSave clk ok data s)) = insert (date data) (date ` set (logs s))"
    by simp
  have d: "distinct (map date (logs (handleLogSave clk ok data s)))"
    using oneLogPerDate_handleLogSave[OF assms] by (simp add: oneLogPerDate_def)
  have m: "date data \<in> set (map date (logs (handleLogSave clk ok data s)))"
    using dates by simp
  have "length (filter (\<lambda>x. x = date data) (map date (logs (handleLogSave clk ok data s)))) = 1"
    using d m by (rule filter_eq_distinct_singleton)
  then have one: "length (filter (\<lambda>l. date l = date data) (logs (handleLogSave clk ok data s))) = 1"
    by (simp add: filter_map comp_def)
  show ?thesis using inv dates one by blast
qed

text \<open>The invariant along four operations of a signed-in user on two dates.\<close>

theorem one_log_per_date_invariant_witness:
  "oneLogPerDate (initialState\<lparr>user := Some ''u1''\<rparr>)
   \<and> oneLogPerDate
        (runOps
           [ToggleOp \<lparr>nowMs = getTime 20000, todayStr = 20000\<rparr> True 20000,
            SaveOp \<lparr>nowMs = getTime 20000, todayStr = 20000\<rparr> True
              \<lparr>date = 20000, flow = Null, mood = Val ''Happy'', symptoms = Some [''Cramps'']\<rparr>,
            ToggleOp \<lparr>nowMs = getTime 20000, todayStr = 20000\<rparr> True 20001,
            ToggleOp \<lparr>nowMs = getTime 20000, todayStr = 20000\<rparr> True 20000]
           (initialState\<lparr>user := Some ''u1''\<rparr>))
   \<and> map date (logs
        (runOps
           [ToggleOp \<lparr>nowMs = getTime 20000, todayStr = 20000\<rparr> True 20000,
            SaveOp \<lparr>nowMs = getTime 20000, todayStr = 20000\<rparr> True
              \<lparr>date = 20000, flow = Null, mood = Val ''Happy'', symptoms = Some [''Cramps'']\<rparr>,
            ToggleOp \<lparr>nowMs = getTime 20000, todayStr = 20000\<rparr> True 20001,
            ToggleOp \<lparr>nowMs = getTime 20000, todayStr = 20000\<rparr> True 20000]
           (initialState\<lparr>user := Some ''u1''\<rparr>))) = [20001, 20000]"
proof -
  let ?clk = "\<lparr>nowMs = getTime 20000, todayStr = 20000\<rparr>"
  let ?s = "initialState\<lparr>user := Some ''u1''\<rparr>"
  let ?ops = "[ToggleOp ?clk True 20000,
            SaveOp ?clk True
              \<lparr>date = 20000, flow = Null, mood = Val ''Happy'', symptoms = Some [''Cramps'']\<rparr>,
            ToggleOp ?clk True 20001,
            ToggleOp ?clk True 20000]"
  have h: "oneLogPerDate ?s"
    by (simp add: oneLogPerDate_def initialState_def)
  have i: "oneLogPerDate (runOps ?ops ?s)"
    using one_log_per_date_invariant [OF h, of ?ops] by blast
  have e: "map date (logs (runOps ?ops ?s)) = [20001, 20000]"
    by (simp add: runOps_def handleTogglePeriod_def optimisticUpdate_def initialState_def
        newLog_def spread_def Let_def)
  show ?thesis using h i e by blast
qed

section \<open>Subscription failure\<close>

text \<open>
  Claim C8. The error callback of the log subscription turns the loading indicator off and
  leaves every other part of the state as it was: logs, settings, the derived cycle
  statistics, and the rest.
\<close>

theorem logs_error_only_stops_loading:
  "loading (onLogsError s) = False
   \<and> logs (onLogsError s) = logs s
   \<and> settings (onLogsError s) = settings s
   \<and> currentDay (onLogsError s) = currentDay s
   \<and> daysUntilNext (onLogsError s) = daysUntilNext s
   \<and> isPeriodToday (onLogsError s) = isPeriodToday s
   \<and> user (onLogsError s) = user s
   \<and> view (onLogsError s) = view s
   \<and> sidebarOpen (onLogsError s) = sidebarOpen s
   \<and> remoteLogs (onLogsError s) = remoteLogs s
   \<and> remoteSettings (onLogsError s) = remoteSettings s"
  by (simp add: onLogsError_def)

section \<open>The optimistic update keeps entries\<close>

text \<open>
  Claim C10. The optimistic update of a save removes no entry of the local list: it merges
  the payload into the entries of the payload's date, or prepends a new entry when there
  is none. The list does not get shorter, every date present stays present, and the
  payload's date is present afterwards, also when the payload clears all fields and the
  remote record is deleted.
\<close>

theorem optimistic_update_keeps_entries:
  "logs (handleLogSave clk ok data s) =
     (if date data \<in> date ` set (logs s)
      then map (\<lambda>l. if date l = date data then spread l data else l) (logs s)
      else newLog clk data # logs s)
   \<and> length (logs s) \<le> length (logs (handleLogSave clk ok data s))
   \<and> date ` set (logs s) \<subseteq> date ` set (logs (handleLogSave clk ok data s))
   \<and> date data \<in> date ` set (logs (handleLogSave clk ok data s))
   \<and> (user s \<noteq> None \<and> ok \<and> clearsAll data \<longrightarrow>
        map_of (remoteLogs (handleLogSave clk ok data s)) (date data) = None)"
proof -
  have a: "logs (handleLogSave clk ok data s) =
     (if date data \<in> date ` set (logs s)
      then map (\<lambda>l. if date l = date data then spread l data else l) (logs s)
      else newLog clk data # logs s)"
    by (simp add: optimisticUpdate_cases)
  have b: "length (logs s) \<le> length (logs (handleLogSave clk ok data s))"
    unfolding a by simp
  have "set (map date (logs (handleLogSave clk ok data s))) = insert (date data) (set (map date (logs s)))"
    unfolding logs_handleLogSave map_date_optimisticUpdate by auto
  then have c: "date ` set (logs (handleLogSave clk ok data s)) = insert (date data) (date ` set (logs s))"
    by simp
  have e: "user s \<noteq> None \<and> ok \<and> clearsAll data \<longrightarrow>
        map_of (remoteLogs (handleLogSave clk ok data s)) (date data) = None"
    by (simp add: remoteLogs_handleLogSave deleteDoc_def delete_conv')
  show ?thesis using a b c e by blast
qed


text \<open>
  A signed-in user clears every field of the only entry: the entry stays in the local
  list while the remote record is deleted.
\<close>

theorem optimistic_update_keeps_entries_witness:
  "user (initialState\<lparr>user := Some ''u1'',
          logs := [fetchedLog (20000, \<lparr>date = 20000, flow = Val Heavy, mood = Val ''Sad'', symptoms = Some []\<rparr>)],
          remoteLogs := [(20000, \<lparr>date = 20000, flow = Val Heavy, mood = Val ''Sad'', symptoms = Some []\<rparr>)]\<rparr>) \<noteq> None
   \<and> clearsAll \<lparr>date = 20000, flow = Null, mood = Null, symptoms = Some []\<rparr>
   \<and> map date (logs (handleLogSave \<lparr>nowMs = getTime 20000, todayStr = 20000\<rparr> True
        \<lparr>date = 20000, flow = Null, mood = Null, symptoms = Some []\<rparr>
        (initialState\<lparr>user := Some ''u1'',
          logs := [fetchedLog (20000, \<lparr>date = 20000, flow = Val Heavy, mood = Val ''Sad'', symptoms = Some []\<rparr>)],
          remoteLogs := [(20000, \<lparr>date = 20000, flow = Val Heavy, mood = Val ''Sad'', symptoms = Some []\<rparr>)]\<rparr>)))
      = [20000]
   \<and> map_of (remoteLogs (handleLogSave \<lparr>nowMs = getTime 20000, todayStr = 20000\<rparr> True
        \<lparr>date = 20000, flow = Null, mood = Null, symptoms = Some []\<rparr>
        (initialState\<lparr>user := Some ''u1'',
          logs := [fetchedLog (20000, \<lparr>date = 20000, flow = Val Heavy, mood = Val ''Sad'', symptoms = Some []\<rparr>)],
          remoteLogs := [(20000, \<lparr>date = 20000, flow = Val Heavy, mood = Val ''Sad'', symptoms = Some []\<rparr>)]\<rparr>)))
      20000 = None"
proof -
  let ?clk = "\<lparr>nowMs = getTime 20000, todayStr = 20000\<rparr>"
  let ?doc = "\<lparr>date = 20000, flow = Val Heavy, mood = Val ''Sad'', symptoms = Some []\<rparr>"
  let ?data = "\<lparr>date = 20000, flow = Null, mood = Null, symptoms = Some []\<rparr>"
  let ?s = "initialState\<lparr>user := Some ''u1'', logs := [fetchedLog (20000, ?doc)],
              remoteLogs := [(20000, ?doc)]\<rparr>"
  have u: "user ?s \<noteq> None" by simp
  have c: "clearsAll ?data" by (simp add: clearsAll_def)
  note t = optimistic_update_keeps_entries [of ?clk True ?data ?s]
  from t u c have r: "map_of (remoteLogs (handleLogSave ?clk True ?data ?s)) (date ?data) = None"
    by blast
  from t have l: "logs (handleLogSave ?clk True ?data ?s) =
     (if date ?data \<in> date ` set (logs ?s)
      then map (\<lambda>l. if date l = date ?data then spread l ?data else l) (logs ?s)
      else newLog ?clk ?data # logs ?s)"
    by blast
  have m: "map date (logs (handleLogSave ?clk True ?data ?s)) = [20000]"
    unfolding l by (simp add: fetchedLog_def)
  show ?thesis using u c m r by simp
qed

section \<open>Toggling\<close>

lemma flow_spread:
  "flow data \<noteq> Undefined \<Longrightarrow> flow (spread l data) = flow data"
  by (cases "flow data") (simp_all add: spread_def)

lemma find_optimisticUpdate_flow:
  assumes "flow data \<noteq> Undefined"
  shows "map_option flow (find (\<lambda>l. date l = date data) (optimisticUpdate clk data prev))
           = Some (flow data)"
proof (cases "date data \<in> date ` set prev")
  case True
  then obtain e where e: "find (\<lambda>l. date l = date data) prev = Some e"
    using find_date_None[of "date data" prev] by (cases "find (\<lambda>l. date l = date data) prev") auto
  then have de: "date e = date data"
    by (auto simp: find_Some_iff)
  have "find (\<lambda>l. date l = date data)
          (map (\<lambda>l. if date l = date data then spread l data else l) prev)
        = map_option (\<lambda>l. if date l = date data then spread l data else l)
            (find (\<lambda>l. date l = date data) prev)"
    by (rule find_map_preserving) simp
  with True e de show ?thesis
    by (simp add: optimisticUpdate_cases flow_spread[OF assms])
next
  case False
  then show ?thesis by (simp add: optimisticUpdate_cases newLog_def)
qed

lemma toggle_on:
  "\<not> flowRecorded (logs s) d \<Longrightarrow>
   handleTogglePeriod clk ok d s =
     handleLogSave clk ok \<lparr>date = d, flow = Val Medium, mood = Undefined, symptoms = None\<rparr> s"
  by (simp add: handleTogglePeriod_def flowRecorded_def split: option.splits)

lemma toggle_off:
  "flowRecorded (logs s) d \<Longrightarrow>
   handleTogglePeriod clk ok d s =
     handleLogSave clk ok \<lparr>date = d, flow = Null, mood = Undefined, symptoms = None\<rparr> s"
  by (simp add: handleTogglePeriod_def flowRecorded_def split: option.splits)

lemma flowRecorded_iff:
  "flowRecorded ls d \<longleftrightarrow>
     (\<exists>f. map_option flow (find (\<lambda>l. date l = d) ls) = Some (Val f))"
proof (cases "find (\<lambda>l. date l = d) ls")
  case None
  then show ?thesis by (simp add: flowRecorded_def)
next
  case (Some e)
  then show ?thesis by (cases "flow e") (simp_all add: flowRecorded_def)
qed

lemma map_of_setDocMerge_flow:
  "flow data \<noteq> Undefined \<Longrightarrow>
   map_option flow (map_of (setDocMerge k data coll) k) = Some (flow data)"
  by (simp add: setDocMerge_def update_conv' flow_spread split: option.splits)

text \<open>
  Claim C4. On a date with no flow recorded, toggling sets the date's flow to Medium
  (locally, and remotely when the write goes through); toggling the same date again
  clears the flow, so the date has no flow recorded after two toggles (locally the flow
  is \<open>null\<close>, remotely the record is gone).
\<close>

theorem toggle_period_twice:
  assumes "\<not> flowRecorded (logs s) d"
  shows "map_option flow (find (\<lambda>l. date l = d) (logs (handleTogglePeriod clk1 ok1 d s)))
           = Some (Val Medium)
       \<and> flowRecorded (logs (handleTogglePeriod clk1 ok1 d s)) d
       \<and> map_option flow (find (\<lambda>l. date l = d)
            (logs (handleTogglePeriod clk2 ok2 d (handleTogglePeriod clk1 ok1 d s))))
           = Some Null
       \<and> \<not> flowRecorded (logs (handleTogglePeriod clk2 ok2 d (handleTogglePeriod clk1 ok1 d s))) d
       \<and> (user s \<noteq> None \<and> ok1 \<longrightarrow>
            map_option flow (map_of (remoteLogs (handleTogglePeriod clk1 ok1 d s)) d)
              = Some (Val Medium))
       \<and> (user s \<noteq> None \<and> ok2 \<longrightarrow>
            map_of (remoteLogs (handleTogglePeriod clk2 ok2 d (handleTogglePeriod clk1 ok1 d s))) d
              = None)"
proof -
  let ?on = "\<lparr>date = d, flow = Val Medium, mood = Undefined, symptoms = None\<rparr>"
  let ?off = "\<lparr>date = d, flow = Null, mood = Undefined, symptoms = None\<rparr>"
  let ?s1 = "handleTogglePeriod clk1 ok1 d s"
  let ?s2 = "handleTogglePeriod clk2 ok2 d ?s1"
  have s1: "?s1 = handleLogSave clk1 ok1 ?on s"
    using assms by (rule toggle_on)
  have f1: "map_option flow (find (\<lambda>l. date l = d) (logs ?s1)) = Some (Val Medium)"
    unfolding s1 logs_handleLogSave
    using find_optimisticUpdate_flow[of ?on clk1 "logs s"] by simp
  then have r1: "flowRecorded (logs ?s1) d"
    by (auto simp: flowRecorded_iff)
  then have s2: "?s2 = handleLogSave clk2 ok2 ?off ?s1"
    by (rule toggle_off)
  have f2: "map_option flow (find (\<lambda>l. date l = d) (logs ?s2)) = Some Null"
    unfolding s2 logs_handleLogSave
    using find_optimisticUpdate_flow[of ?off clk2 "logs ?s1"] by simp
  then have r2: "\<not> flowRecorded (logs ?s2) d"
    by (auto simp: flowRecorded_iff)
  have m1: "user s \<noteq> None \<and> ok1 \<longrightarrow>
      map_option flow (map_of (remoteLogs ?s1) d) = Some (Val Medium)"
    unfolding s1 remoteLogs_handleLogSave
    using map_of_setDocMerge_flow[of ?on d "remoteLogs s"] by (simp add: clearsAll_def)
  have u1: "user ?s1 = user s"
    unfolding s1 by simp
  have m2: "user s \<noteq> None \<and> ok2 \<longrightarrow> map_of (remoteLogs ?s2) d = None"
    unfolding s2 remoteLogs_handleLogSave u1
    by (simp add: clearsAll_def deleteDoc_def delete_conv')
  show ?thesis using f1 r1 f2 r2 m1 m2 by blast
qed

text \<open>Two toggles by a signed-in user on a date that has a mood but no flow.\<close>

theorem toggle_period_twice_witness:
  "\<not> flowRecorded (logs (initialState\<lparr>user := Some ''u1'',
          logs := [fetchedLog (20000, \<lparr>date = 20000, flow = Null, mood = Val ''Sad'', symptoms = Some []\<rparr>)],
          remoteLogs := [(20000, \<lparr>date = 20000, flow = Null, mood = Val ''Sad'', symptoms = Some []\<rparr>)]\<rparr>)) 20000
   \<and> user (initialState\<lparr>user := Some ''u1'',
          logs := [fetchedLog (20000, \<lparr>date = 20000, flow = Null, mood = Val ''Sad'', symptoms = Some []\<rparr>)],
          remoteLogs := [(20000, \<lparr>date = 20000, flow = Null, mood = Val ''Sad'', symptoms = Some []\<rparr>)]\<rparr>) \<noteq> None
   \<and> map flow (logs (handleTogglePeriod \<lparr>nowMs = getTime 20000, todayStr = 20000\<rparr> True 20000
        (initialState\<lparr>user := Some ''u1'',
          logs := [fetchedLog (20000, \<lparr>date = 20000, flow = Null, mood = Val ''Sad'', symptoms = Some []\<rparr>)],
          remoteLogs := [(20000, \<lparr>date = 20000, flow = Null, mood = Val ''Sad'', symptoms = Some []\<rparr>)]\<rparr>)))
      = [Val Medium]
   \<and> \<not> flowRecorded (logs (handleTogglePeriod \<lparr>nowMs = getTime 20000, todayStr = 20000\<rparr> True 20000
        (handleTogglePeriod \<lparr>nowMs = getTime 20000, todayStr = 20000\<rparr> True 20000
        (initialState\<lparr>user := Some ''u1'',
          logs := [fetchedLog (20000, \<lparr>date = 20000, flow = Null, mood = Val ''Sad'', symptoms = Some []\<rparr>)],
          remoteLogs := [(20000, \<lparr>date = 20000, flow = Null, mood = Val ''Sad'', symptoms = Some []\<rparr>)]\<rparr>)))) 20000
   \<and> map_of (remoteLogs (handleTogglePeriod \<lparr>nowMs = getTime 20000, todayStr = 20000\<rparr> True 20000
        (handleTogglePeriod \<lparr>nowMs = getTime 20000, todayStr = 20000\<rparr> True 20000
        (initialState\<lparr>user := Some ''u1'',
          logs := [fetchedLog (20000, \<lparr>date = 20000, flow = Null, mood = Val ''Sad'', symptoms = Some []\<rparr>)],
          remoteLogs := [(20000, \<lparr>date = 20000, flow = Null, mood = Val ''Sad'', symptoms = Some []\<rparr>)]\<rparr>)))) 20000
      = None"
proof -
  let ?clk = "\<lparr>nowMs = getTime 20000, todayStr = 20000\<rparr>"
  let ?doc = "\<lparr>date = 20000, flow = Null, mood = Val ''Sad'', symptoms = Some []\<rparr>"
  let ?s = "initialState\<lparr>user := Some ''u1'', logs := [fetchedLog (20000, ?doc)],
              remoteLogs := [(20000, ?doc)]\<rparr>"
  have h: "\<not> flowRecorded (logs ?s) 20000"
    by (simp add: flowRecorded_def fetchedLog_def)
  have u: "user ?s \<noteq> None" by simp
  note t = toggle_period_twice [OF h, of ?clk True ?clk True]
  from t have a: "\<not> flowRecorded (logs (handleTogglePeriod ?clk True 20000
        (handleTogglePeriod ?clk True 20000 ?s))) 20000"
    by blast
  from t u have b: "map_of (remoteLogs (handleTogglePeriod ?clk True 20000
        (handleTogglePeriod ?clk True 20000 ?s))) 20000 = None"
    by blast
  have c: "map flow (logs (handleTogglePeriod ?clk True 20000 ?s)) = [Val Medium]"
    by (simp add: handleTogglePeriod_def optimisticUpdate_cases fetchedLog_def spread_def)
  show ?thesis using h u a b c by blast
qed

section \<open>Deleting on an empty payload\<close>

text \<open>
  A payload that carries all three fields, as the daily logger's form sends, clears all
  data exactly when the merged record would be empty.
\<close>

lemma full_payload_clearsAll:
  "flow data \<noteq> Undefined \<Longrightarrow> mood data \<noteq> Undefined \<Longrightarrow> symptoms data \<noteq> None \<Longrightarrow>
   clearsAll (spread old data) = clearsAll data"
  by (cases "flow data"; cases "mood data"; cases "symptoms data")
     (simp_all add: clearsAll_def spread_def)

text \<open>
  Claim C3 at a stored record with flow, mood and a symptom, saved with the payload that
  un-toggling a period sends (flow \<open>null\<close>, nothing else): the remote record is deleted,
  although merging the payload into it leaves the mood and the symptom, as the local
  list shows.
\<close>

theorem partial_payload_deletes_nonempty_record:
  "map_of (remoteLogs (handleLogSave \<lparr>nowMs = getTime 20000, todayStr = 20000\<rparr> True
        \<lparr>date = 19999, flow = Null, mood = Undefined, symptoms = None\<rparr>
        (initialState\<lparr>user := Some ''u1'',
          logs := [fetchedLog (19999, \<lparr>date = 19999, flow = Val Medium, mood = Val ''Happy'', symptoms = Some [''Cramps'']\<rparr>)],
          remoteLogs := [(19999, \<lparr>date = 19999, flow = Val Medium, mood = Val ''Happy'', symptoms = Some [''Cramps'']\<rparr>)]\<rparr>)))
      19999 = None
   \<and> spread \<lparr>date = 19999, flow = Val Medium, mood = Val ''Happy'', symptoms = Some [''Cramps'']\<rparr>
        \<lparr>date = 19999, flow = Null, mood = Undefined, symptoms = None\<rparr>
      = \<lparr>date = 19999, flow = Null, mood = Val ''Happy'', symptoms = Some [''Cramps'']\<rparr>
   \<and> \<not> clearsAll \<lparr>date = 19999, flow = Null, mood = Val ''Happy'', symptoms = Some [''Cramps'']\<rparr>
   \<and> map mood (logs (handleLogSave \<lparr>nowMs = getTime 20000, todayStr = 20000\<rparr> True
        \<lparr>date = 19999, flow = Null, mood = Undefined, symptoms = None\<rparr>
        (initialState\<lparr>user := Some ''u1'',
          logs := [fetchedLog (19999, \<lparr>date = 19999, flow = Val Medium, mood = Val ''Happy'', symptoms = Some [''Cramps'']\<rparr>)],
          remoteLogs := [(19999, \<lparr>date = 19999, flow = Val Medium, mood = Val ''Happy'', symptoms = Some [''Cramps'']\<rparr>)]\<rparr>)))
      = [Val ''Happy'']"
  by (simp add: remoteLogs_handleLogSave clearsAll_def deleteDoc_def spread_def
      optimisticUpdate_cases fetchedLog_def)


section \<open>Printing and parsing integers\<close>



















lemma safe_integer_printsOwnDigits: "\<bar>n\<bar> < 2 ^ 53 \<Longrightarrow> printsOwnDigits n"
  by (simp add: printsOwnDigits_def)

section \<open>Settings are overwritten\<close>




section \<open>The fertile band\<close>









section \<open>Predicted cycle length\<close>















text \<open>
  The dates that the first loop collects are the most recent date of each group. For a
  five-day period from day 20000 and a period that began on day 20028 the measured gap
  is 24 days, while the starts lie 28 days apart.
\<close>

lemma unequal_groups_latest_gap:
  "predictedCycleLength \<lparr>cycleLength = 30, periodLength = 5\<rparr> (flowLogsOf
     [fetchedLog (20000, \<lparr>date = 20000, flow = Val Medium, mood = Null, symptoms = Some []\<rparr>),
      fetchedLog (20001, \<lparr>date = 20001, flow = Val Medium, mood = Null, symptoms = Some []\<rparr>),
      fetchedLog (20002, \<lparr>date = 20002, flow = Val Medium, mood = Null, symptoms = Some []\<rparr>),
      fetchedLog (20003, \<lparr>date = 20003, flow = Val Medium, mood = Null, symptoms = Some []\<rparr>),
      fetchedLog (20004, \<lparr>date = 20004, flow = Val Medium, mood = Null, symptoms = Some []\<rparr>),
      fetchedLog (20028, \<lparr>date = 20028, flow = Val Medium, mood = Null, symptoms = Some []\<rparr>)]) = 24"
  by (simp add: predictedCycleLength_def flowLogsOf_def fetchedLog_def
      getTime_def msPerDay_def Math_round_def Let_def floor_eq_iff)

end
